theory Spec2Isabelle
  imports Complex_Main
begin

section \<open>Conventions of the embedding\<close>

text \<open>
  The Python sources embedded here are \<^verbatim>\<open>src/core/agent_orchestrator.py\<close>,
  \<^verbatim>\<open>src/core/feedback_system.py\<close> and
  \<^verbatim>\<open>src/agents/specialized/timeline_estimation/timeline_estimator_agent.py\<close>, with the
  classes of \<^verbatim>\<open>src/core/agent_base.py\<close> and \<^verbatim>\<open>src/core/agent_metrics.py\<close> that they use.

  \<^item> A raised exception is the \<open>Inl\<close> branch of a sum; an exception carries its class
    and the text \<^verbatim>\<open>str(e)\<close>. Every statement of the source that raises is a branch of
    the model, also when it raises on every execution.
  \<^item> Python \<^verbatim>\<open>int\<close> is \<^typ>\<open>int\<close>. A \<^verbatim>\<open>float\<close> is the rational number it denotes. In
    \<^verbatim>\<open>RetryStrategy\<close> and in the throughput update, whose results are what is claimed,
    the result of every float operation passes through a rounding function \<open>rnd\<close>, and
    the conversion of an \<^verbatim>\<open>int\<close> operand raises \<^verbatim>\<open>OverflowError\<close> from
    \<^verbatim>\<open>2**1024 - 2**970\<close> on, as in binary64. Elsewhere floats are durations and
    progress values that are stored and compared only; they are left exact. Infinities
    and NaN are not represented.
  \<^item> A \<^verbatim>\<open>dict\<close> whose iteration order matters is an association list with Python's
    rules: assignment to an existing key keeps its position, a new key goes to the end.
  \<^item> The orchestrator module imports \<^verbatim>\<open>Task\<close>, \<^verbatim>\<open>TaskCompletion\<close> and
    \<^verbatim>\<open>FeedbackSystem\<close> under \<^verbatim>\<open>TYPE_CHECKING\<close> only. The names are taken to resolve to
    the classes of the repository; the validation these pydantic classes perform at
    construction is part of the model.
  \<^item> Agents, the language model, the file system and the clock are outside the
    program: their answers are fields of an environment record.
  \<^item> Logging changes no state that the program reads; where it matters it appears as an
    event of a trace, in the order of the source.
  \<^item> Division is written with its test for a zero divisor, which raises.
\<close>

datatype exn_class =
    AttributeError | KeyError | ValueError | TypeError | ZeroDivisionError | OverflowError
  | ValidationError | TransientError | FatalError | ConnectionError | TimeoutError
  | FileNotFoundError | PermissionError | OSError | OtherException

datatype py_exception = Exc (exc_class: exn_class) (exc_str: string)

subsection \<open>Dictionaries in insertion order\<close>

fun dict_get :: "('k \<times> 'v) list \<Rightarrow> 'k \<Rightarrow> 'v option" where
  "dict_get [] k = None"
| "dict_get ((k', v) # kvs) k = (if k' = k then Some v else dict_get kvs k)"

definition dict_mem :: "('k \<times> 'v) list \<Rightarrow> 'k \<Rightarrow> bool" where
  "dict_mem d k = (dict_get d k \<noteq> None)"

fun dict_set :: "('k \<times> 'v) list \<Rightarrow> 'k \<Rightarrow> 'v \<Rightarrow> ('k \<times> 'v) list" where
  "dict_set [] k v = [(k, v)]"
| "dict_set ((k', v') # kvs) k v =
     (if k' = k then (k, v) # kvs else (k', v') # dict_set kvs k v)"

fun dict_del :: "('k \<times> 'v) list \<Rightarrow> 'k \<Rightarrow> ('k \<times> 'v) list" where
  "dict_del [] k = []"
| "dict_del ((k', v') # kvs) k = (if k' = k then dict_del kvs k else (k', v') # dict_del kvs k)"

section \<open>RetryStrategy\<close>

text \<open>The fields \<^verbatim>\<open>base_delay\<close> and \<^verbatim>\<open>max_delay\<close> hold floats, as annotated.\<close>

record retry_strategy =
  max_retries :: int
  base_delay :: rat
  max_delay :: rat
  strategy :: string

definition default_retry_strategy :: retry_strategy where
  "default_retry_strategy =
     \<lparr>max_retries = 3, base_delay = 1, max_delay = 32, strategy = ''exponential''\<rparr>"

text \<open>
  An \<^verbatim>\<open>int\<close> operand of a float operation is converted first. The largest float is
  \<^verbatim>\<open>2**1024 - 2**971\<close>; an integer that rounds beyond it, that is one of magnitude
  \<^verbatim>\<open>2**1024 - 2**970\<close> or more, raises \<^verbatim>\<open>OverflowError\<close>.
\<close>

definition float_limit :: int where
  "float_limit = 2 ^ 1024 - 2 ^ 970"

definition int_to_float :: "(rat \<Rightarrow> rat) \<Rightarrow> int \<Rightarrow> py_exception + rat" where
  "int_to_float rnd n =
     (if float_limit \<le> \<bar>n\<bar> then Inl (Exc OverflowError ''int too large to convert to float'')
      else Inr (rnd (of_int n)))"

text \<open>
  \<^verbatim>\<open>2 ** k\<close> as the right operand of a float multiplication: an \<^verbatim>\<open>int\<close> for \<open>k \<ge> 0\<close>, which
  is then converted, and a float below.
\<close>

definition pow2 :: "(rat \<Rightarrow> rat) \<Rightarrow> int \<Rightarrow> py_exception + rat" where
  "pow2 rnd k = (if 0 \<le> k then int_to_float rnd (2 ^ nat k) else Inr (rnd (1 / 2 ^ nat (- k))))"

definition calculate_delay :: "(rat \<Rightarrow> rat) \<Rightarrow> retry_strategy \<Rightarrow> int \<Rightarrow> py_exception + rat" where
  "calculate_delay rnd s attempt =
     (if strategy s = ''exponential'' then
        (case pow2 rnd (attempt - 1) of
           Inl e \<Rightarrow> Inl e
         | Inr p \<Rightarrow> Inr (min (rnd (base_delay s * p)) (max_delay s)))
      else if strategy s = ''linear'' then
        (case int_to_float rnd attempt of
           Inl e \<Rightarrow> Inl e
         | Inr a \<Rightarrow> Inr (min (rnd (base_delay s * a)) (max_delay s)))
      else if strategy s = ''fixed'' then
        Inr (base_delay s)
      else
        (case pow2 rnd (attempt - 1) of
           Inl e \<Rightarrow> Inl e
         | Inr p \<Rightarrow> Inr (min (rnd (base_delay s * p)) (max_delay s))))"

text \<open>The rounding that changes nothing: that of operations whose exact result is a float.\<close>

definition exact :: "rat \<Rightarrow> rat" where
  "exact x = x"

section \<open>Tasks, results and completion records\<close>

text \<open>
  Task metadata is an open dictionary; the keys the embedded functions read are the
  fields below, \<open>None\<close> standing for an absent key.
\<close>

record metadata =
  md_priority :: "string option"
  md_complexity :: "rat option"
  md_estimated_duration :: "rat option"
  md_milestone_id :: "string option"
  md_dependencies :: "string list option"

definition empty_metadata :: metadata where
  "empty_metadata = \<lparr>md_priority = None, md_complexity = None, md_estimated_duration = None,
     md_milestone_id = None, md_dependencies = None\<rparr>"

text \<open>An entry of \<^verbatim>\<open>result["details"]["tasks"]\<close>, read with \<^verbatim>\<open>.get\<close>.\<close>

record new_task_dict =
  nt_task_id :: "string option"
  nt_agent_id :: "string option"
  nt_description :: "string option"
  nt_depends_on :: "string list option"
  nt_metadata :: "metadata option"

text \<open>
  The result dictionary of a task: the keys that the orchestrator reads or writes.
  \<open>r_details_tasks\<close> holds the dictionary entries of \<^verbatim>\<open>details["tasks"]\<close> (empty when
  \<^verbatim>\<open>details\<close> is absent or is no dictionary, or \<^verbatim>\<open>tasks\<close> is no list).
\<close>

record result_dict =
  r_status :: "string option"
  r_error :: "string option"
  r_error_type :: "string option"
  r_attempts :: "int option"
  r_retry_strategy :: "string option"
  r_details_tasks :: "new_task_dict list"

datatype agent_value = Dict result_dict | NonDict

text \<open>class \<^verbatim>\<open>TaskDependency\<close>; the constructor sets \<^verbatim>\<open>status = "pending"\<close>.\<close>

record task_dependency =
  td_task_id :: string
  td_agent_id :: string
  td_description :: string
  td_depends_on :: "string list"
  td_metadata :: metadata
  td_status :: string
  td_start_time :: "rat option"
  td_end_time :: "rat option"
  td_result :: "agent_value option"

definition TaskDependency ::
  "string \<Rightarrow> string \<Rightarrow> string \<Rightarrow> string list option \<Rightarrow> metadata option \<Rightarrow> task_dependency" where
  "TaskDependency task_id agent_id description depends_on md =
     \<lparr>td_task_id = task_id, td_agent_id = agent_id, td_description = description,
      td_depends_on = (case depends_on of None \<Rightarrow> [] | Some ds \<Rightarrow> ds),
      td_metadata = (case md of None \<Rightarrow> empty_metadata | Some m \<Rightarrow> m),
      td_status = ''pending'', td_start_time = None, td_end_time = None, td_result = None\<rparr>"

text \<open>
  The task object that \<^verbatim>\<open>_execute_task_with_retry\<close> and the agents receive: the
  attributes that the orchestrator reads of it.
\<close>

record task =
  t_task_id :: string
  t_task_type :: string
  t_description :: string
  t_metadata :: metadata

text \<open>
  The class \<^verbatim>\<open>Task\<close> of \<^verbatim>\<open>core/agent_base.py\<close> is a pydantic model whose fields
  \<^verbatim>\<open>task_id\<close>, \<^verbatim>\<open>task_type\<close>, \<^verbatim>\<open>priority\<close>, \<^verbatim>\<open>status\<close>, \<^verbatim>\<open>created_at\<close>, \<^verbatim>\<open>updated_at\<close>,
  \<^verbatim>\<open>metadata\<close> and \<^verbatim>\<open>payload\<close> are all required. The orchestrator calls the constructor
  in four places, each time with the keywords \<^verbatim>\<open>task_id\<close>, \<^verbatim>\<open>task_type\<close>,
  \<^verbatim>\<open>description\<close> and \<^verbatim>\<open>metadata\<close> only: five required fields are missing and the
  constructor raises \<^verbatim>\<open>ValidationError\<close>, whatever the four values are. (As the module
  stands, with the import under \<^verbatim>\<open>TYPE_CHECKING\<close>, the same statement raises
  \<^verbatim>\<open>NameError\<close>.) The text below stands for the message, which lists the five fields.
\<close>

definition Task_rejected :: py_exception where
  "Task_rejected = Exc ValidationError ''5 validation errors for Task''"

definition Task :: "string \<Rightarrow> string \<Rightarrow> string \<Rightarrow> metadata \<Rightarrow> py_exception + task" where
  "Task task_id task_type description md = Inl Task_rejected"

text \<open>
  \<^verbatim>\<open>TaskCompletion\<close>, a pydantic model as well. Its field \<^verbatim>\<open>start_time: datetime\<close> is
  required and rejects \<^verbatim>\<open>None\<close>; the other arguments the orchestrator passes have the
  types of their fields.
\<close>

record task_completion =
  tc_task_id :: string
  tc_agent_id :: string
  tc_estimated_duration :: rat
  tc_actual_duration :: rat
  tc_start_time :: rat
  tc_end_time :: rat
  tc_complexity :: rat
  tc_dependencies :: "string list"
  tc_success :: bool
  tc_notes :: "string option"

definition TaskCompletion ::
  "string \<Rightarrow> string \<Rightarrow> rat \<Rightarrow> rat \<Rightarrow> rat option \<Rightarrow> rat \<Rightarrow> rat \<Rightarrow> string list \<Rightarrow> bool \<Rightarrow> string
     \<Rightarrow> py_exception + task_completion" where
  "TaskCompletion task_id agent_id estimated_duration actual_duration start_time end_time
       complexity dependencies success notes =
     (case start_time of
        None \<Rightarrow> Inl (Exc ValidationError ''1 validation error for TaskCompletion'')
      | Some t0 \<Rightarrow>
          Inr \<lparr>tc_task_id = task_id, tc_agent_id = agent_id,
               tc_estimated_duration = estimated_duration,
               tc_actual_duration = actual_duration,
               tc_start_time = t0, tc_end_time = end_time,
               tc_complexity = complexity, tc_dependencies = dependencies,
               tc_success = success, tc_notes = Some notes\<rparr>)"

section \<open>FeedbackSystem\<close>

text \<open>
  What the feedback system asks of the outside: writing the completion file, the two
  language-model calls, the metrics file and the milestone file.
\<close>

record feedback_env =
  save_completion_data :: "task_completion \<Rightarrow> py_exception + unit"
  analyze_patterns :: "task_completion \<Rightarrow> py_exception + (string \<times> string) list"
  generate_recommendations ::
    "task_completion \<Rightarrow> (string \<times> string) list \<Rightarrow> py_exception + string list"
  update_agent_metrics :: "string \<Rightarrow> rat \<Rightarrow> py_exception + unit"
  check_milestone_status :: "task_completion \<Rightarrow> py_exception + unit"

record analysis =
  an_time_difference :: rat
  an_accuracy_percentage :: rat
  an_patterns :: "(string \<times> string) list"
  an_recommendations :: "string list"

definition float_division_by_zero :: py_exception where
  "float_division_by_zero = Exc ZeroDivisionError ''float division by zero''"

definition analyze_completion :: "feedback_env \<Rightarrow> task_completion \<Rightarrow> py_exception + analysis" where
  "analyze_completion fenv completion =
     (let time_difference = tc_actual_duration completion - tc_estimated_duration completion in
      if tc_estimated_duration completion = 0 then Inl float_division_by_zero
      else
        let accuracy_percentage = 1 - \<bar>time_difference\<bar> / tc_estimated_duration completion in
        case analyze_patterns fenv completion of
          Inl e \<Rightarrow> Inl e
        | Inr patterns \<Rightarrow>
            (case generate_recommendations fenv completion patterns of
               Inl e \<Rightarrow> Inl e
             | Inr recommendations \<Rightarrow>
                 Inr \<lparr>an_time_difference = time_difference,
                      an_accuracy_percentage = accuracy_percentage,
                      an_patterns = patterns,
                      an_recommendations = recommendations\<rparr>))"

text \<open>
  \<^verbatim>\<open>record_task_completion\<close> logs and re-raises whatever its steps raise; on success it
  returns a dictionary holding the analysis.
\<close>

definition record_task_completion ::
  "feedback_env \<Rightarrow> task_completion \<Rightarrow> py_exception + analysis" where
  "record_task_completion fenv completion =
     (case save_completion_data fenv completion of
        Inl e \<Rightarrow> Inl e
      | Inr _ \<Rightarrow>
          (case analyze_completion fenv completion of
             Inl e \<Rightarrow> Inl e
           | Inr a \<Rightarrow>
               (case update_agent_metrics fenv (tc_agent_id completion)
                       (an_accuracy_percentage a) of
                  Inl e \<Rightarrow> Inl e
                | Inr _ \<Rightarrow>
                    (case check_milestone_status fenv completion of
                       Inl e \<Rightarrow> Inl e
                     | Inr _ \<Rightarrow> Inr a))))"

section \<open>AgentOrchestrator: executing one task with retries\<close>

text \<open>
  The environment of the orchestrator. \<open>run_task env a t n\<close> is what agent \<open>a\<close> answers to
  the call made for task \<open>t\<close> at attempt \<open>n\<close>: an exception or a returned value.
  \<open>now env\<close> is the first reading of the clock in a function, \<open>elapsed env n\<close> the time
  in seconds from it to the later readings around attempt \<open>n\<close>, \<open>uuid4 env k\<close> the k-th
  generated identifier, \<open>write_milestones env\<close> the outcome of opening
  \<^verbatim>\<open>milestones.json\<close> for writing, \<open>rounding env\<close> the rounding of float results.
\<close>

record env =
  run_task :: "string \<Rightarrow> task \<Rightarrow> int \<Rightarrow> py_exception + agent_value"
  elapsed :: "int \<Rightarrow> rat"
  now :: rat
  uuid4 :: "nat \<Rightarrow> string"
  write_milestones :: "py_exception + unit"
  feedback :: feedback_env
  rounding :: "rat \<Rightarrow> rat"

text \<open>What the run does to the outside world, in order.\<close>

datatype event =
    Attempt string string int
  | Sleep rat
  | Metric string int
  | Completion task_completion
  | LogError string
  | Notify string string

text \<open>
  The class \<^verbatim>\<open>AgentOrchestrator\<close> defines neither \<^verbatim>\<open>_get_retry_strategy\<close> nor
  \<^verbatim>\<open>_get_retry_count\<close>, and no other class or module of the repository does; the class
  has no base class and no \<^verbatim>\<open>__getattr__\<close>. Looking either name up on the instance
  raises \<^verbatim>\<open>AttributeError\<close>.
\<close>

definition missing_attribute :: "string \<Rightarrow> py_exception" where
  "missing_attribute name =
     Exc AttributeError
       ([CHR 0x27] @ ''AgentOrchestrator'' @ [CHR 0x27] @ '' object has no attribute ''
        @ [CHR 0x27] @ name @ [CHR 0x27])"

definition get_retry_strategy :: "string \<Rightarrow> py_exception + retry_strategy" where
  "get_retry_strategy agent_id = Inl (missing_attribute ''_get_retry_strategy'')"

definition get_retry_count :: "py_exception \<Rightarrow> string \<Rightarrow> py_exception + int" where
  "get_retry_count e agent_id = Inl (missing_attribute ''_get_retry_count'')"

text \<open>
  \<^verbatim>\<open>record_metric\<close> of \<^verbatim>\<open>core/agent_metrics.py\<close> hands the entry to
  \<^verbatim>\<open>MetricsCollector._process_log_entry\<close>, whose second statement is
  \<^verbatim>\<open>self.daily_metrics[today]['agent_tasks'][agent_id].append(1)\<close>. The dictionary is a
  \<^verbatim>\<open>defaultdict(lambda: defaultdict(list))\<close>, so \<^verbatim>\<open>self.daily_metrics[today]['agent_tasks']\<close>
  is a list, and indexing it with the string \<^verbatim>\<open>agent_id\<close> raises \<^verbatim>\<open>TypeError\<close>: every
  call of \<^verbatim>\<open>record_metric\<close> raises. The arguments are the status and the number of
  retries attempted.
\<close>

definition record_metric :: "string \<Rightarrow> int \<Rightarrow> py_exception + unit" where
  "record_metric status retries_attempted =
     Inl (Exc TypeError ''list indices must be integers or slices, not str'')"

definition key_error :: "string \<Rightarrow> py_exception" where
  "key_error k = Exc KeyError ([CHR 0x27] @ k @ [CHR 0x27])"

text \<open>The two error dictionaries returned by \<^verbatim>\<open>_execute_task_with_retry\<close>.\<close>

definition error_result :: "py_exception \<Rightarrow> string \<Rightarrow> int \<Rightarrow> retry_strategy \<Rightarrow> result_dict" where
  "error_result e error_type attempt strat =
     \<lparr>r_status = Some ''error'', r_error = Some (exc_str e), r_error_type = Some error_type,
      r_attempts = Some attempt, r_retry_strategy = Some (strategy strat),
      r_details_tasks = []\<rparr>"

text \<open>
  The body of the \<^verbatim>\<open>try\<close> (lines 447 to 482): the registry lookup
  \<^verbatim>\<open>self.agents[agent_id]\<close>, the agent call, the metric, the completion record and its
  hand-over to the feedback system. Whatever is raised in there reaches the handler.
\<close>

definition try_run_task ::
  "env \<Rightarrow> string list \<Rightarrow> string \<Rightarrow> task \<Rightarrow> int \<Rightarrow> (py_exception + agent_value) \<times> event list" where
  "try_run_task env registry agent_id task attempt =
     (if agent_id \<notin> set registry then (Inl (key_error agent_id), [])
      else
        case run_task env agent_id task attempt of
          Inl e \<Rightarrow> (Inl e, [Attempt agent_id (t_task_id task) attempt])
        | Inr v \<Rightarrow>
            (let tr = [Attempt agent_id (t_task_id task) attempt]
             in case record_metric ''PASS'' (attempt - 1) of
                  Inl e \<Rightarrow> (Inl e, tr)
                | Inr _ \<Rightarrow>
                    (case TaskCompletion (t_task_id task) agent_id
                            (case md_estimated_duration (t_metadata task) of
                               None \<Rightarrow> 0 | Some d \<Rightarrow> d)
                            (elapsed env attempt)
                            (Some (now env))
                            (now env + elapsed env attempt)
                            (case md_complexity (t_metadata task) of None \<Rightarrow> 5 | Some c \<Rightarrow> c)
                            (case md_dependencies (t_metadata task) of
                               None \<Rightarrow> [] | Some ds \<Rightarrow> ds)
                            True ''Task completed successfully'' of
                       Inl e \<Rightarrow> (Inl e, tr @ [Metric ''PASS'' (attempt - 1)])
                     | Inr completion \<Rightarrow>
                         (let tr' = tr @ [Metric ''PASS'' (attempt - 1), Completion completion]
                          in case record_task_completion (feedback env) completion of
                               Inl e \<Rightarrow> (Inl e, tr')
                             | Inr _ \<Rightarrow> (Inr v, tr')))))"

text \<open>
  \<^verbatim>\<open>_execute_task_with_retry\<close>. Its first statement is the call of
  \<^verbatim>\<open>self._get_retry_strategy\<close>, outside the \<^verbatim>\<open>try\<close>; the handler begins with the call of
  \<^verbatim>\<open>self._get_retry_count\<close>. An exception raised in the handler leaves the function.
  The recursion on \<^verbatim>\<open>attempt + 1\<close> is bounded by fuel: the result is \<open>None\<close> when the fuel
  runs out before the function returns or raises.
\<close>

fun execute_task_with_retry ::
  "nat \<Rightarrow> env \<Rightarrow> string list \<Rightarrow> string \<Rightarrow> task \<Rightarrow> int
     \<Rightarrow> ((py_exception + agent_value) \<times> event list) option" where
  "execute_task_with_retry 0 env registry agent_id task attempt = None"
| "execute_task_with_retry (Suc fuel) env registry agent_id task attempt =
     (case get_retry_strategy agent_id of
        Inl e \<Rightarrow> Some (Inl e, [])
      | Inr strat \<Rightarrow>
          (case try_run_task env registry agent_id task attempt of
             (Inr v, tr) \<Rightarrow> Some (Inr v, tr)
           | (Inl e, tr) \<Rightarrow>
               (case get_retry_count e agent_id of
                  Inl e' \<Rightarrow> Some (Inl e', tr)
                | Inr retry_count \<Rightarrow>
                    if retry_count = 0 then
                      (case record_metric ''FAIL'' (attempt - 1) of
                         Inl e' \<Rightarrow> Some (Inl e', tr)
                       | Inr _ \<Rightarrow>
                           Some (Inr (Dict (error_result e ''fatal'' attempt strat)),
                                 tr @ [Metric ''FAIL'' (attempt - 1)]))
                    else if attempt \<le> retry_count then
                      (case calculate_delay (rounding env) strat attempt of
                         Inl e' \<Rightarrow> Some (Inl e', tr)
                       | Inr delay \<Rightarrow>
                           (case execute_task_with_retry fuel env registry agent_id task
                                   (attempt + 1) of
                              None \<Rightarrow> None
                            | Some (r, tr') \<Rightarrow> Some (r, tr @ [Sleep delay] @ tr')))
                    else
                      (case record_metric ''FAIL'' (attempt - 1) of
                         Inl e' \<Rightarrow> Some (Inl e', tr)
                       | Inr _ \<Rightarrow>
                           Some (Inr (Dict (error_result e ''max_retries_exceeded'' attempt
                                              strat)),
                                 tr @ [Metric ''FAIL'' (attempt - 1)])))))"

definition attempts_made :: "event list \<Rightarrow> int list" where
  "attempts_made tr = concat (map (\<lambda>ev. case ev of Attempt a t n \<Rightarrow> [n] | _ \<Rightarrow> []) tr)"

definition sleeps :: "event list \<Rightarrow> rat list" where
  "sleeps tr = concat (map (\<lambda>ev. case ev of Sleep d \<Rightarrow> [d] | _ \<Rightarrow> []) tr)"

section \<open>AgentOrchestrator: state, ready tasks, milestones\<close>

text \<open>
  \<^verbatim>\<open>MilestoneStatus\<close> declares \<^verbatim>\<open>tasks: List[str]\<close> and
  \<^verbatim>\<open>estimated_completion: datetime\<close>; \<^verbatim>\<open>initialize\<close> builds the milestones with
  \<^verbatim>\<open>MilestoneStatus(**milestone)\<close>, the only statement that stores one. \<^verbatim>\<open>create_task\<close>
  appends dictionaries with the keys \<^verbatim>\<open>task_id\<close>, \<^verbatim>\<open>description\<close> and
  \<^verbatim>\<open>completed\<close> to \<^verbatim>\<open>tasks\<close>. An entry of \<^verbatim>\<open>tasks\<close> is therefore a string or such a
  dictionary. \<^verbatim>\<open>_update_milestone_progress\<close> reads \<^verbatim>\<open>estimated_completion\<close> as a
  string in ISO format and assigns such a string to \<^verbatim>\<open>actual_completion\<close>; both
  kinds of value are represented, each by the instant it denotes.
\<close>

record milestone_task =
  mt_task_id :: string
  mt_description :: string
  mt_completed :: bool

datatype milestone_entry = Name string | Entry milestone_task

datatype instant = DateTime rat | IsoText rat

record milestone_status =
  ms_milestone_id :: string
  ms_name :: string
  ms_estimated_completion :: instant
  ms_actual_completion :: "instant option"
  ms_status :: string
  ms_tasks :: "milestone_entry list"
  ms_progress :: rat
  ms_delay_reason :: "string option"

record orchestrator =
  agents :: "string list"
  tasks :: "(string \<times> task_dependency) list"
  completed_tasks :: "(string \<times> task_dependency) list"
  milestones :: "(string \<times> milestone_status) list"
  task_dependencies :: "(string \<times> string set) list"
  reverse_dependencies :: "(string \<times> string set) list"

text \<open>
  \<^verbatim>\<open>_get_ready_tasks\<close>: the loop over \<^verbatim>\<open>self.tasks.values()\<close>, appending to
  \<^verbatim>\<open>ready_tasks\<close>.
\<close>

fun ready_loop ::
  "(string \<times> task_dependency) list \<Rightarrow> (string \<times> task_dependency) list
     \<Rightarrow> task_dependency list \<Rightarrow> task_dependency list" where
  "ready_loop [] completed ready_tasks = ready_tasks"
| "ready_loop ((k, task) # rest) completed ready_tasks =
     (if td_status task = ''pending''
         \<and> list_all (\<lambda>dep. dict_mem completed dep) (td_depends_on task)
      then ready_loop rest completed (ready_tasks @ [task])
      else ready_loop rest completed ready_tasks)"

definition get_ready_tasks :: "orchestrator \<Rightarrow> task_dependency list" where
  "get_ready_tasks st = ready_loop (tasks st) (completed_tasks st) []"

text \<open>\<^verbatim>\<open>_handle_pm_task_results\<close>: the loop over the new task dictionaries.\<close>

definition add_reverse ::
  "string \<Rightarrow> string \<Rightarrow> (string \<times> string set) list \<Rightarrow> (string \<times> string set) list" where
  "add_reverse new_id dep rdeps =
     (case dict_get rdeps dep of
        None \<Rightarrow> dict_set rdeps dep {new_id}
      | Some ids \<Rightarrow> dict_set rdeps dep (insert new_id ids))"

fun handle_pm_loop :: "env \<Rightarrow> nat \<Rightarrow> new_task_dict list \<Rightarrow> orchestrator \<Rightarrow> orchestrator" where
  "handle_pm_loop env k [] st = st"
| "handle_pm_loop env k (d # ds) st =
     (let new_task =
            TaskDependency
              (case nt_task_id d of None \<Rightarrow> uuid4 env k | Some i \<Rightarrow> i)
              (case nt_agent_id d of None \<Rightarrow> [] | Some a \<Rightarrow> a)
              (case nt_description d of None \<Rightarrow> [] | Some x \<Rightarrow> x)
              (case nt_depends_on d of None \<Rightarrow> Some [] | Some x \<Rightarrow> Some x)
              (case nt_metadata d of None \<Rightarrow> Some empty_metadata | Some m \<Rightarrow> Some m)
      in handle_pm_loop env (Suc k) ds
           (st\<lparr>tasks := dict_set (tasks st) (td_task_id new_task) new_task,
               task_dependencies :=
                 dict_set (task_dependencies st) (td_task_id new_task)
                   (set (td_depends_on new_task)),
               reverse_dependencies :=
                 fold (add_reverse (td_task_id new_task)) (td_depends_on new_task)
                   (reverse_dependencies st)\<rparr>))"

definition handle_pm_task_results :: "env \<Rightarrow> result_dict \<Rightarrow> orchestrator \<Rightarrow> orchestrator" where
  "handle_pm_task_results env result st = handle_pm_loop env 0 (r_details_tasks result) st"

text \<open>
  The two notification helpers return at once when no agent \<^verbatim>\<open>slack_bot\<close> is registered.
  Otherwise they build the \<^verbatim>\<open>Task\<close> and call the agent inside a \<^verbatim>\<open>try\<close> whose handler
  logs the exception and does not raise. \<open>kind\<close> is \<^verbatim>\<open>milestone\<close> or \<^verbatim>\<open>delay\<close>; the
  metadata of the notification hold none of the keys that are read here.
\<close>

definition send_notification ::
  "env \<Rightarrow> string \<Rightarrow> milestone_status \<Rightarrow> orchestrator \<Rightarrow> event list" where
  "send_notification env kind milestone st =
     (if ''slack_bot'' \<notin> set (agents st) then []
      else
        case Task (kind @ ''-notification-'' @ ms_milestone_id milestone) ''slack_bot''
               (''Send milestone '' @ kind @ '' notification'') empty_metadata of
          Inl e \<Rightarrow> [LogError (''Failed to send '' @ kind @ '' notification: '' @ exc_str e)]
        | Inr task_obj \<Rightarrow>
            (case run_task env ''slack_bot'' task_obj 1 of
               Inl e \<Rightarrow>
                 [LogError (''Failed to send '' @ kind @ '' notification: '' @ exc_str e)]
             | Inr _ \<Rightarrow> [Notify kind (ms_milestone_id milestone)]))"

text \<open>
  Rewriting \<^verbatim>\<open>milestones.json\<close>: the file is opened, then
  \<^verbatim>\<open>json.dump([m.dict() for m in self.milestones.values()], f, indent=2)\<close> runs, with no
  \<^verbatim>\<open>default\<close>: a \<^verbatim>\<open>datetime\<close> among the values raises \<^verbatim>\<open>TypeError\<close>.
\<close>

definition is_datetime :: "instant \<Rightarrow> bool" where
  "is_datetime x = (case x of DateTime t \<Rightarrow> True | IsoText t \<Rightarrow> False)"

definition dump_milestones :: "env \<Rightarrow> orchestrator \<Rightarrow> py_exception + unit" where
  "dump_milestones env st =
     (case write_milestones env of
        Inl e \<Rightarrow> Inl e
      | Inr _ \<Rightarrow>
          if list_ex (\<lambda>(k, m). is_datetime (ms_estimated_completion m)
                              \<or> (case ms_actual_completion m of
                                    None \<Rightarrow> False | Some x \<Rightarrow> is_datetime x))
               (milestones st)
          then Inl (Exc TypeError ''Object of type datetime is not JSON serializable'')
          else Inr ())"

text \<open>
  \<^verbatim>\<open>_handle_milestone_delay\<close>: sets the status, notifies, rewrites the milestone file;
  a failure of the write is raised as \<^verbatim>\<open>FatalError\<close>. The argument
  \<^verbatim>\<open>delay_reason\<close> goes into the notification and the log only.
\<close>

definition handle_milestone_delay ::
  "env \<Rightarrow> string \<Rightarrow> string \<Rightarrow> orchestrator
     \<Rightarrow> orchestrator \<times> event list \<times> py_exception option" where
  "handle_milestone_delay env milestone_id delay_reason st =
     (case dict_get (milestones st) milestone_id of
        None \<Rightarrow> (st, [], None)
      | Some milestone \<Rightarrow>
          (let milestone' = milestone\<lparr>ms_status := ''delayed''\<rparr>;
               st' = st\<lparr>milestones := dict_set (milestones st) milestone_id milestone'\<rparr>;
               tr = send_notification env ''delay'' milestone' st'
           in case dump_milestones env st' of
                Inl e \<Rightarrow>
                  (st', tr,
                   Some (Exc FatalError (''Milestone delay handling failed: '' @ exc_str e)))
              | Inr _ \<Rightarrow> (st', tr, None)))"

text \<open>
  Line 692, \<^verbatim>\<open>sum(1 for task in milestone.tasks if task["completed"])\<close>: subscripting a
  string with a string raises \<^verbatim>\<open>TypeError\<close>.
\<close>

fun count_completed :: "milestone_entry list \<Rightarrow> py_exception + nat" where
  "count_completed [] = Inr 0"
| "count_completed (Name s # rest) = Inl (Exc TypeError ''string indices must be integers'')"
| "count_completed (Entry d # rest) =
     (case count_completed rest of
        Inl e \<Rightarrow> Inl e
      | Inr n \<Rightarrow> Inr (if mt_completed d then Suc n else n))"

text \<open>Line 698, \<^verbatim>\<open>datetime.fromisoformat\<close>: the argument must be a string.\<close>

definition fromisoformat :: "instant \<Rightarrow> py_exception + rat" where
  "fromisoformat x =
     (case x of
        DateTime t \<Rightarrow> Inl (Exc TypeError ''fromisoformat: argument must be str'')
      | IsoText t \<Rightarrow> Inr t)"

text \<open>\<^verbatim>\<open>_update_milestone_progress\<close>.\<close>

definition update_milestone_progress ::
  "env \<Rightarrow> string \<Rightarrow> orchestrator \<Rightarrow> orchestrator \<times> event list \<times> py_exception option" where
  "update_milestone_progress env milestone_id st =
     (case dict_get (milestones st) milestone_id of
        None \<Rightarrow> (st, [], None)
      | Some milestone \<Rightarrow>
          (let total_tasks = length (ms_tasks milestone)
           in case count_completed (ms_tasks milestone) of
                Inl e \<Rightarrow> (st, [], Some e)
              | Inr completed \<Rightarrow>
                  (let progress = (if total_tasks > 0
                                   then rat_of_nat completed / rat_of_nat total_tasks * 100
                                   else 0)
                   in case fromisoformat (ms_estimated_completion milestone) of
                        Inl e \<Rightarrow> (st, [], Some e)
                      | Inr estimated_completion \<Rightarrow>
                          (let (st1, tr1, raised) =
                                 (if progress < 50 \<and> estimated_completion < now env
                                  then handle_milestone_delay env milestone_id
                                         ''Tasks taking longer than estimated'' st
                                  else (st, [], None))
                           in case raised of
                                Some e \<Rightarrow> (st1, tr1, Some e)
                              | None \<Rightarrow>
                                  (case dict_get (milestones st1) milestone_id of
                                     None \<Rightarrow> (st1, tr1, None)
                                   | Some m1 \<Rightarrow>
                                       (let m2 = (if progress = 100
                                                  then m1\<lparr>ms_status := ''completed'',
                                                           ms_actual_completion := Some (IsoText (now env))\<rparr>
                                                  else if progress > 0
                                                  then m1\<lparr>ms_status := ''in_progress''\<rparr>
                                                  else m1\<lparr>ms_status := ''pending''\<rparr>);
                                            m3 = m2\<lparr>ms_progress := progress\<rparr>;
                                            st2 = st1\<lparr>milestones :=
                                                        dict_set (milestones st1) milestone_id m3\<rparr>
                                        in case dump_milestones env st2 of
                                             Inl e \<Rightarrow>
                                               (st2, tr1,
                                                Some (Exc FatalError
                                                        (''Milestone update failed: ''
                                                         @ exc_str e)))
                                           | Inr _ \<Rightarrow>
                                               (st2,
                                                tr1 @ send_notification env ''milestone'' m3 st2,
                                                None)))))))"

section \<open>AgentOrchestrator: the dispatch loop\<close>

definition processing_error :: "py_exception \<Rightarrow> result_dict" where
  "processing_error e =
     \<lparr>r_status = Some ''error'', r_error = Some (exc_str e),
      r_error_type = Some ''processing_error'', r_attempts = None, r_retry_strategy = None,
      r_details_tasks = []\<rparr>"

text \<open>
  The \<^verbatim>\<open>except Exception as e\<close> branch of \<^verbatim>\<open>process_tasks\<close> (lines 378 to 402). The task
  object is mutated first; \<open>moved\<close> says that the \<^verbatim>\<open>try\<close> body had already put this
  object into \<^verbatim>\<open>completed_tasks\<close>, where the mutation then shows. \<^verbatim>\<open>self.tasks.pop\<close>
  raises \<^verbatim>\<open>KeyError\<close> when the key is gone. \<^verbatim>\<open>process_tasks\<close> never sets
  \<^verbatim>\<open>start_time\<close>, and \<^verbatim>\<open>TaskCompletion\<close> rejects \<^verbatim>\<open>None\<close>. Whatever is raised in this
  branch leaves \<^verbatim>\<open>process_tasks\<close>.
\<close>

definition handle_exception ::
  "env \<Rightarrow> bool \<Rightarrow> task_dependency \<Rightarrow> py_exception \<Rightarrow> orchestrator \<Rightarrow> event list
     \<Rightarrow> orchestrator \<times> event list \<times> py_exception option" where
  "handle_exception env moved task e st tr =
     (let task' = task\<lparr>td_status := ''failed'',
                        td_result := Some (Dict (processing_error e))\<rparr>;
          tr' = tr @ [LogError (''Failed to process task '' @ td_task_id task @ '': '' @ exc_str e)];
          st0 = (if moved
                 then st\<lparr>completed_tasks := dict_set (completed_tasks st) (td_task_id task) task'\<rparr>
                 else st)
      in if \<not> dict_mem (tasks st0) (td_task_id task) then
           (st0, tr', Some (key_error (td_task_id task)))
         else
           let st1 = st0\<lparr>tasks := dict_del (tasks st0) (td_task_id task),
                         completed_tasks :=
                           dict_set (completed_tasks st0) (td_task_id task) task'\<rparr>
           in case TaskCompletion (td_task_id task') (td_agent_id task')
                     (case md_estimated_duration (td_metadata task') of None \<Rightarrow> 0 | Some d \<Rightarrow> d)
                     (case td_start_time task' of None \<Rightarrow> 0 | Some t0 \<Rightarrow> now env - t0)
                     (td_start_time task')
                     (now env)
                     (case md_complexity (td_metadata task') of None \<Rightarrow> 5 | Some c \<Rightarrow> c)
                     (td_depends_on task')
                     False (''Failed: '' @ exc_str e) of
                Inl e' \<Rightarrow> (st1, tr', Some e')
              | Inr completion \<Rightarrow>
                  (case record_task_completion (feedback env) completion of
                     Inl e' \<Rightarrow> (st1, tr' @ [Completion completion], Some e')
                   | Inr _ \<Rightarrow> (st1, tr' @ [Completion completion], None)))"

text \<open>A result that is no dictionary is wrapped; a missing status becomes \<open>success\<close>.\<close>

definition ensure_dict :: "agent_value \<Rightarrow> result_dict" where
  "ensure_dict v =
     (case v of
        NonDict \<Rightarrow>
          \<lparr>r_status = Some ''success'', r_error = None, r_error_type = None,
           r_attempts = None, r_retry_strategy = None, r_details_tasks = []\<rparr>
      | Dict d \<Rightarrow> (if r_status d = None then d\<lparr>r_status := Some ''success''\<rparr> else d))"

text \<open>
  The rest of the \<^verbatim>\<open>try\<close> body (lines 354 to 376), once \<^verbatim>\<open>_execute_task_with_retry\<close>
  has returned.
\<close>

definition complete_task ::
  "env \<Rightarrow> task_dependency \<Rightarrow> agent_value \<Rightarrow> orchestrator \<Rightarrow> event list
     \<Rightarrow> orchestrator \<times> event list \<times> py_exception option" where
  "complete_task env task v st tr =
     (let result = ensure_dict v;
          task1 = task\<lparr>td_status :=
                         (if r_status result = Some ''success'' then ''completed'' else ''failed''),
                       td_result := Some (Dict result)\<rparr>;
          st1 = (if td_agent_id task = ''pm_agent''
                 then handle_pm_task_results env result st else st)
      in if \<not> dict_mem (tasks st1) (td_task_id task) then
           handle_exception env False task1 (key_error (td_task_id task)) st1 tr
         else
           let st2 = st1\<lparr>tasks := dict_del (tasks st1) (td_task_id task),
                         completed_tasks :=
                           dict_set (completed_tasks st1) (td_task_id task) task1\<rparr>
           in case md_milestone_id (td_metadata task) of
                None \<Rightarrow> (st2, tr, None)
              | Some milestone_id \<Rightarrow>
                  if milestone_id = [] then (st2, tr, None)
                  else
                    (case update_milestone_progress env milestone_id st2 of
                       (st3, tr3, None) \<Rightarrow> (st3, tr @ tr3, None)
                     | (st3, tr3, Some e) \<Rightarrow>
                         handle_exception env True task1 e st3 (tr @ tr3)))"

text \<open>
  One round of the \<^verbatim>\<open>for task in ready_tasks\<close> loop (lines 336 to 402). The third
  component of the result is the exception that leaves \<^verbatim>\<open>process_tasks\<close>, if any. The
  \<^verbatim>\<open>Task\<close> object is built at line 342, before the \<^verbatim>\<open>try\<close> of line 349: what the
  constructor raises is not handled.
\<close>

definition dispatch ::
  "nat \<Rightarrow> env \<Rightarrow> task_dependency \<Rightarrow> orchestrator
     \<Rightarrow> (orchestrator \<times> event list \<times> py_exception option) option" where
  "dispatch fuel env task st =
     (if td_agent_id task \<notin> set (agents st) then
        Some (st, [LogError (''Unknown agent: '' @ td_agent_id task)], None)
      else
        case Task (td_task_id task) (td_agent_id task) (td_description task) (td_metadata task) of
          Inl e \<Rightarrow> Some (st, [], Some e)
        | Inr task_obj \<Rightarrow>
            (case execute_task_with_retry fuel env (agents st) (td_agent_id task) task_obj 1 of
               None \<Rightarrow> None
             | Some (Inl e, tr) \<Rightarrow> Some (handle_exception env False task e st tr)
             | Some (Inr v, tr) \<Rightarrow> Some (complete_task env task v st tr)))"

fun process_ready ::
  "nat \<Rightarrow> env \<Rightarrow> task_dependency list \<Rightarrow> orchestrator
     \<Rightarrow> (orchestrator \<times> event list \<times> py_exception option) option" where
  "process_ready fuel env [] st = Some (st, [], None)"
| "process_ready fuel env (task # rest) st =
     (case dispatch fuel env task st of
        None \<Rightarrow> None
      | Some (st', tr, Some e) \<Rightarrow> Some (st', tr, Some e)
      | Some (st', tr, None) \<Rightarrow>
          (case process_ready fuel env rest st' of
             None \<Rightarrow> None
           | Some (st'', tr', x) \<Rightarrow> Some (st'', tr @ tr', x)))"

text \<open>
  \<^verbatim>\<open>process_tasks\<close>: \<^verbatim>\<open>while self.tasks\<close>. The loop need not end, so it runs on fuel;
  \<open>None\<close> is the loop still running when the fuel is spent.
\<close>

fun process_tasks ::
  "nat \<Rightarrow> env \<Rightarrow> orchestrator \<Rightarrow> (orchestrator \<times> event list \<times> py_exception option) option" where
  "process_tasks 0 env st = None"
| "process_tasks (Suc fuel) env st =
     (if tasks st = [] then Some (st, [], None)
      else if get_ready_tasks st = [] then
        (case process_tasks fuel env st of
           None \<Rightarrow> None
         | Some (st', tr, x) \<Rightarrow> Some (st', Sleep 1 # tr, x))
      else
        (case process_ready (Suc fuel) env (get_ready_tasks st) st of
           None \<Rightarrow> None
         | Some (st', tr, Some e) \<Rightarrow> Some (st', tr, Some e)
         | Some (st', tr, None) \<Rightarrow>
             (case process_tasks fuel env st' of
                None \<Rightarrow> None
              | Some (st'', tr', x) \<Rightarrow> Some (st'', tr @ tr', x))))"

section \<open>AgentOrchestrator: executing one task directly\<close>

text \<open>
  \<^verbatim>\<open>execute_task\<close> (lines 605 to 678). The dependencies are looked up in \<^verbatim>\<open>self.tasks\<close>
  and must have the status \<^verbatim>\<open>completed\<close>; the first one that is absent or has another
  status raises \<^verbatim>\<open>ValueError\<close>.
\<close>

fun check_dependencies ::
  "(string \<times> task_dependency) list \<Rightarrow> string list \<Rightarrow> py_exception option" where
  "check_dependencies queue [] = None"
| "check_dependencies queue (dep_id # rest) =
     (case dict_get queue dep_id of
        None \<Rightarrow> Some (Exc ValueError (''Dependency '' @ dep_id @ '' not found''))
      | Some dep_task \<Rightarrow>
          if td_status dep_task \<noteq> ''completed''
          then Some (Exc ValueError (''Dependency '' @ dep_id @ '' not completed''))
          else check_dependencies queue rest)"

text \<open>
  The task object stays in \<^verbatim>\<open>self.tasks\<close> under its key while it is mutated; \<open>task\<close> is
  its current value. The body of the \<^verbatim>\<open>try\<close> (lines 625 to 656): the fourth component
  of the result is the task object as the body leaves it.
\<close>

definition execute_task_try ::
  "env \<Rightarrow> string \<Rightarrow> task_dependency \<Rightarrow> orchestrator
     \<Rightarrow> orchestrator \<times> event list \<times> task_dependency \<times> (py_exception + agent_value)" where
  "execute_task_try env task_id task st =
     (case Task task_id (td_agent_id task) (td_description task) (td_metadata task) of
        Inl e \<Rightarrow> (st, [], task, Inl e)
      | Inr task_obj \<Rightarrow>
          (case run_task env (td_agent_id task) task_obj 1 of
             Inl e \<Rightarrow> (st, [Attempt (td_agent_id task) task_id 1], task, Inl e)
           | Inr result \<Rightarrow>
               (let end_time = now env + elapsed env 1;
                    task1 = task\<lparr>td_status := ''completed'', td_end_time := Some end_time,
                                 td_result := Some result\<rparr>;
                    st1 = st\<lparr>tasks := dict_set (tasks st) task_id task1\<rparr>;
                    tr = [Attempt (td_agent_id task) task_id 1]
                in case td_start_time task1 of
                     None \<Rightarrow>
                       (st1, tr, task1,
                        Inl (Exc TypeError ''unsupported operand type(s) for -''))
                   | Some start_time \<Rightarrow>
                       (case TaskCompletion task_id (td_agent_id task1)
                               (case md_estimated_duration (td_metadata task1) of
                                  None \<Rightarrow> 0 | Some d \<Rightarrow> d)
                               (end_time - start_time)
                               (Some start_time)
                               end_time
                               (case md_complexity (td_metadata task1) of
                                  None \<Rightarrow> 5 | Some c \<Rightarrow> c)
                               (td_depends_on task1)
                               True ''Task completed successfully'' of
                          Inl e \<Rightarrow> (st1, tr, task1, Inl e)
                        | Inr completion \<Rightarrow>
                            (case record_task_completion (feedback env) completion of
                               Inl e \<Rightarrow> (st1, tr @ [Completion completion], task1, Inl e)
                             | Inr _ \<Rightarrow>
                                 (case md_milestone_id (td_metadata task1) of
                                    None \<Rightarrow>
                                      (st1, tr @ [Completion completion], task1, Inr result)
                                  | Some milestone_id \<Rightarrow>
                                      if milestone_id = [] then
                                        (st1, tr @ [Completion completion], task1, Inr result)
                                      else
                                        (case update_milestone_progress env milestone_id st1 of
                                           (st2, tr2, Some e) \<Rightarrow>
                                             (st2, tr @ [Completion completion] @ tr2, task1,
                                              Inl e)
                                         | (st2, tr2, None) \<Rightarrow>
                                             (st2, tr @ [Completion completion] @ tr2, task1,
                                              Inr result))))))))"

text \<open>
  The \<^verbatim>\<open>except Exception as e\<close> branch (lines 659 to 678): the task is marked failed, a
  completion record is built and handed to the feedback system, and the exception is
  raised again; an exception of the branch itself takes its place.
\<close>

definition execute_task_except ::
  "env \<Rightarrow> string \<Rightarrow> task_dependency \<Rightarrow> py_exception \<Rightarrow> orchestrator \<Rightarrow> event list
     \<Rightarrow> orchestrator \<times> event list \<times> py_exception" where
  "execute_task_except env task_id task e st tr =
     (let end_time = now env + elapsed env 1;
          task1 = task\<lparr>td_status := ''failed'', td_end_time := Some end_time\<rparr>;
          st1 = st\<lparr>tasks := dict_set (tasks st) task_id task1\<rparr>
      in case td_start_time task1 of
           None \<Rightarrow> (st1, tr, Exc TypeError ''unsupported operand type(s) for -'')
         | Some start_time \<Rightarrow>
             (case TaskCompletion task_id (td_agent_id task1)
                     (case md_estimated_duration (td_metadata task1) of None \<Rightarrow> 0 | Some d \<Rightarrow> d)
                     (end_time - start_time)
                     (Some start_time)
                     end_time
                     (case md_complexity (td_metadata task1) of None \<Rightarrow> 5 | Some c \<Rightarrow> c)
                     (td_depends_on task1)
                     False (''Failed: '' @ exc_str e) of
                Inl e' \<Rightarrow> (st1, tr, e')
              | Inr completion \<Rightarrow>
                  (case record_task_completion (feedback env) completion of
                     Inl e' \<Rightarrow> (st1, tr @ [Completion completion], e')
                   | Inr _ \<Rightarrow> (st1, tr @ [Completion completion], e))))"

definition execute_task ::
  "env \<Rightarrow> string \<Rightarrow> orchestrator
     \<Rightarrow> orchestrator \<times> event list \<times> (py_exception + agent_value)" where
  "execute_task env task_id st =
     (case dict_get (tasks st) task_id of
        None \<Rightarrow> (st, [], Inl (Exc ValueError (''Task '' @ task_id @ '' not found'')))
      | Some task \<Rightarrow>
          (case check_dependencies (tasks st) (td_depends_on task) of
             Some e \<Rightarrow> (st, [], Inl e)
           | None \<Rightarrow>
               if td_agent_id task \<notin> set (agents st) then
                 (st, [], Inl (key_error (td_agent_id task)))
               else
                 (let task1 = task\<lparr>td_start_time := Some (now env), td_status := ''running''\<rparr>;
                      st1 = st\<lparr>tasks := dict_set (tasks st) task_id task1\<rparr>
                  in (case execute_task_try env task_id task1 st1 of
                        (st2, tr, task2, Inr result) \<Rightarrow> (st2, tr, Inr result)
                      | (st2, tr, task2, Inl e) \<Rightarrow>
                          (case execute_task_except env task_id task2 e st2 tr of
                             (st3, tr3, e') \<Rightarrow> (st3, tr3, Inl e'))))))"

text \<open>
  A caller of the orchestrator: a sequence of calls of \<^verbatim>\<open>execute_task\<close> and
  \<^verbatim>\<open>process_tasks\<close>, each on the state the one before has left, whether it returned or
  raised. The result is \<open>None\<close> when a call of \<^verbatim>\<open>process_tasks\<close> is still running when
  its fuel is spent.
\<close>

datatype call = ExecuteTask string | ProcessTasks nat

fun run_calls :: "env \<Rightarrow> call list \<Rightarrow> orchestrator \<Rightarrow> orchestrator option" where
  "run_calls env [] st = Some st"
| "run_calls env (ExecuteTask task_id # rest) st =
     run_calls env rest (fst (execute_task env task_id st))"
| "run_calls env (ProcessTasks fuel # rest) st =
     (case process_tasks fuel env st of
        None \<Rightarrow> None
      | Some (st', tr, raised) \<Rightarrow> run_calls env rest st')"

section \<open>TimelineEstimatorAgent\<close>

record agent_throughput =
  tasks_per_minute :: rat
  average_duration :: rat
  total_tasks :: int
  last_update :: "rat option"

definition default_throughput :: agent_throughput where
  "default_throughput =
     \<lparr>tasks_per_minute = 0, average_duration = 0, total_tasks = 0, last_update = None\<rparr>"

text \<open>
  \<^verbatim>\<open>self.agent_throughput\<close> is a \<^verbatim>\<open>defaultdict\<close>: indexing with a key that is absent
  stores the default entry under it and returns it.
\<close>

definition throughput_item ::
  "(string \<times> agent_throughput) list \<Rightarrow> string
     \<Rightarrow> agent_throughput \<times> (string \<times> agent_throughput) list" where
  "throughput_item store k =
     (case dict_get store k of
        None \<Rightarrow> (default_throughput, dict_set store k default_throughput)
      | Some th \<Rightarrow> (th, store))"

definition estimate_task_duration ::
  "(string \<times> agent_throughput) list \<Rightarrow> task_dependency
     \<Rightarrow> rat \<times> (string \<times> agent_throughput) list" where
  "estimate_task_duration store task =
     (let (throughput, store') = throughput_item store (td_agent_id task);
          base_duration = (if tasks_per_minute throughput > 0
                           then 60 / tasks_per_minute throughput else 5);
          complexity = (case md_complexity (td_metadata task) of None \<Rightarrow> 5 | Some c \<Rightarrow> c)
      in (base_duration * (complexity / 5), store'))"

text \<open>
  \<^verbatim>\<open>_find_critical_path\<close>. The dictionary \<^verbatim>\<open>graph\<close> built first is never read and is
  left out. The first loop fills \<^verbatim>\<open>earliest_completion\<close> in queue order; a dependency
  with no entry yet counts 0.
\<close>

fun earliest_loop ::
  "task_dependency list \<Rightarrow> (string \<times> rat) list \<Rightarrow> (string \<times> agent_throughput) list
     \<Rightarrow> (string \<times> rat) list \<times> (string \<times> agent_throughput) list" where
  "earliest_loop [] earliest_completion store = (earliest_completion, store)"
| "earliest_loop (task # rest) earliest_completion store =
     (let (duration, store') = estimate_task_duration store task
      in case td_depends_on task of
           [] \<Rightarrow> earliest_loop rest
                   (dict_set earliest_completion (td_task_id task) duration) store'
         | dep # deps \<Rightarrow>
             (let get = (\<lambda>dep_id. case dict_get earliest_completion dep_id of
                                    None \<Rightarrow> 0 | Some x \<Rightarrow> x);
                  max_dep_completion = fold (\<lambda>d m. max m (get d)) deps (get dep)
              in earliest_loop rest
                   (dict_set earliest_completion (td_task_id task)
                      (max_dep_completion + duration)) store'))"

definition find_critical_path ::
  "(string \<times> agent_throughput) list \<Rightarrow> task_dependency list
     \<Rightarrow> (py_exception + string list) \<times> (string \<times> agent_throughput) list" where
  "find_critical_path store task_queue =
     (let (earliest_completion, store') = earliest_loop task_queue [] store
      in case map snd earliest_completion of
           [] \<Rightarrow> (Inl (Exc ValueError ''max() arg is an empty sequence''), store')
         | x # xs \<Rightarrow>
             (let max_completion = fold max xs x
              in (Inr (map td_task_id
                         (filter (\<lambda>task. dict_get earliest_completion (td_task_id task)
                                           = Some max_completion) task_queue)),
                  store')))"

text \<open>An entry of \<^verbatim>\<open>simulation["task_completion_times"]\<close>.\<close>

record completion_window =
  cw_start :: rat
  cw_end :: rat
  cw_duration :: rat

text \<open>
  \<^verbatim>\<open>_update_agent_throughput\<close>: the loop over the items of
  \<^verbatim>\<open>simulation["task_completion_times"]\<close>. The loop variable is called \<^verbatim>\<open>agent_id\<close>; the
  keys of the dictionary are task identifiers, for \<^verbatim>\<open>_simulate_execution\<close> fills it
  with \<^verbatim>\<open>simulation["task_completion_times"][task.task_id] = {...}\<close> (line 303). The
  membership test does not insert. The entry is a dictionary that is mutated in place:
  what was assigned before an exception stays assigned. The averages are floats and
  \<^verbatim>\<open>total_tasks\<close> is an \<^verbatim>\<open>int\<close>, converted where it meets a float; both divisions raise
  on a zero divisor.
\<close>

fun update_agent_throughput ::
  "(rat \<Rightarrow> rat) \<Rightarrow> rat \<Rightarrow> (string \<times> completion_window) list \<Rightarrow> (string \<times> agent_throughput) list
     \<Rightarrow> (string \<times> agent_throughput) list \<times> py_exception option" where
  "update_agent_throughput rnd clock [] store = (store, None)"
| "update_agent_throughput rnd clock ((agent_id, completion_times) # rest) store =
     (case dict_get store agent_id of
        None \<Rightarrow> update_agent_throughput rnd clock rest store
      | Some throughput \<Rightarrow>
          (let th1 = throughput\<lparr>total_tasks := total_tasks throughput + 1\<rparr>
           in case int_to_float rnd (total_tasks th1 - 1) of
                Inl e \<Rightarrow> (dict_set store agent_id th1, Some e)
              | Inr m \<Rightarrow>
                  (let total = rnd (rnd (average_duration th1 * m) + cw_duration completion_times)
                   in case int_to_float rnd (total_tasks th1) of
                        Inl e \<Rightarrow> (dict_set store agent_id th1, Some e)
                      | Inr n \<Rightarrow>
                          if n = 0 then
                            (dict_set store agent_id th1, Some float_division_by_zero)
                          else
                            let th2 = th1\<lparr>average_duration := rnd (total / n)\<rparr>
                            in if average_duration th2 = 0 then
                                 (dict_set store agent_id th2, Some float_division_by_zero)
                               else
                                 update_agent_throughput rnd clock rest
                                   (dict_set store agent_id
                                      (th2\<lparr>tasks_per_minute := rnd (60 / average_duration th2),
                                           last_update := Some clock\<rparr>)))))"

section \<open>Concrete inputs\<close>

text \<open>
  A feedback system built as the orchestrator builds it, \<^verbatim>\<open>FeedbackSystem(None, None)\<close>:
  files can be written, the language model is \<^verbatim>\<open>None\<close>.
\<close>

definition sample_feedback :: feedback_env where
  "sample_feedback =
     \<lparr>save_completion_data = (\<lambda>c. Inr ()),
      analyze_patterns =
        (\<lambda>c. Inl (Exc AttributeError
                 (''NoneType object has no attribute analyze_text''))),
      generate_recommendations =
        (\<lambda>c p. Inl (Exc AttributeError
                 (''NoneType object has no attribute generate_text''))),
      update_agent_metrics = (\<lambda>a x. Inr ()),
      check_milestone_status = (\<lambda>c. Inr ())\<rparr>"

text \<open>The same with a data directory that cannot be written.\<close>

definition readonly_feedback :: feedback_env where
  "readonly_feedback =
     sample_feedback\<lparr>save_completion_data :=
       (\<lambda>c. Inl (Exc PermissionError ''Permission denied''))\<rparr>"

text \<open>An environment in which every agent call raises \<^verbatim>\<open>TransientError\<close>.\<close>

definition sample_env :: env where
  "sample_env =
     \<lparr>run_task = (\<lambda>agent_id task attempt. Inl (Exc TransientError ''unavailable'')),
      elapsed = (\<lambda>attempt. 0),
      now = 20,
      uuid4 = (\<lambda>k. ''generated''),
      write_milestones = Inr (),
      feedback = sample_feedback,
      rounding = exact\<rparr>"

text \<open>An environment in which every agent call returns a value that is no dictionary.\<close>

definition willing_env :: env where
  "willing_env = sample_env\<lparr>run_task := (\<lambda>agent_id task attempt. Inr NonDict)\<rparr>"

text \<open>The queue of the critical-path scenario; durations 2, 3 and 1 come from the
  complexities 2, 3 and 1 at the default base duration 5.\<close>

definition task_A :: task_dependency where
  "task_A = TaskDependency ''A'' ''dev'' ''first'' None
              (Some (empty_metadata\<lparr>md_complexity := Some 2\<rparr>))"

definition task_B :: task_dependency where
  "task_B = TaskDependency ''B'' ''dev'' ''second'' (Some [''A''])
              (Some (empty_metadata\<lparr>md_complexity := Some 3\<rparr>))"

definition task_C :: task_dependency where
  "task_C = TaskDependency ''C'' ''dev'' ''third'' (Some [''A''])
              (Some (empty_metadata\<lparr>md_complexity := Some 1\<rparr>))"

text \<open>An object with the attributes of a task for the agent \<open>dev\<close>.\<close>

definition sample_task :: task where
  "sample_task =
     \<lparr>t_task_id = ''A'', t_task_type = ''dev'', t_description = ''first'',
      t_metadata = empty_metadata\<rparr>"

text \<open>
  A milestone as \<^verbatim>\<open>initialize\<close> loads it: four member tasks, named by their
  identifiers, due at 10; the clock of \<open>sample_env\<close> reads 20. And a milestone loaded
  without tasks to which \<^verbatim>\<open>create_task\<close> has appended four.
\<close>

definition late_milestone :: milestone_status where
  "late_milestone =
     \<lparr>ms_milestone_id = ''m1'', ms_name = ''release'', ms_estimated_completion = DateTime 10,
      ms_actual_completion = None, ms_status = ''pending'',
      ms_tasks = [Name ''t1'', Name ''t2'', Name ''t3'', Name ''t4''],
      ms_progress = 0, ms_delay_reason = None\<rparr>"

definition grown_milestone :: milestone_status where
  "grown_milestone =
     late_milestone\<lparr>ms_tasks :=
       [Entry \<lparr>mt_task_id = ''t1'', mt_description = [], mt_completed = False\<rparr>,
        Entry \<lparr>mt_task_id = ''t2'', mt_description = [], mt_completed = False\<rparr>,
        Entry \<lparr>mt_task_id = ''t3'', mt_description = [], mt_completed = False\<rparr>,
        Entry \<lparr>mt_task_id = ''t4'', mt_description = [], mt_completed = False\<rparr>]\<rparr>"

definition milestone_state :: "milestone_status \<Rightarrow> orchestrator" where
  "milestone_state m =
     \<lparr>agents = [''slack_bot''], tasks = [], completed_tasks = [],
      milestones = [(''m1'', m)],
      task_dependencies = [], reverse_dependencies = []\<rparr>"

text \<open>A queue holding \<open>A\<close> and its dependent \<open>B\<close>, both for the registered agent.\<close>

definition queue_state :: orchestrator where
  "queue_state =
     \<lparr>agents = [''dev''], tasks = [(''A'', task_A), (''B'', task_B)], completed_tasks = [],
      milestones = [], task_dependencies = [], reverse_dependencies = []\<rparr>"

text \<open>A state in which \<open>A\<close> has ended in failure; \<open>B\<close> has low priority and was queued
  before \<open>D\<close>, which has high priority and no dependency.\<close>

definition task_D :: task_dependency where
  "task_D = TaskDependency ''D'' ''dev'' ''fourth'' None
              (Some (empty_metadata\<lparr>md_priority := Some ''HIGH''\<rparr>))"

definition priority_state :: orchestrator where
  "priority_state =
     \<lparr>agents = [''dev''],
      tasks = [(''B'', task_B\<lparr>td_metadata := empty_metadata\<lparr>md_priority := Some ''LOW''\<rparr>\<rparr>),
               (''D'', task_D)],
      completed_tasks = [(''A'', task_A\<lparr>td_status := ''failed''\<rparr>)],
      milestones = [], task_dependencies = [], reverse_dependencies = []\<rparr>"

text \<open>A queue whose only task names an agent that is not registered.\<close>

definition task_G :: task_dependency where
  "task_G = TaskDependency ''G'' ''ghost'' ''nobody runs this'' None None"

definition ghost_state :: orchestrator where
  "ghost_state =
     \<lparr>agents = [''dev''], tasks = [(''G'', task_G)], completed_tasks = [],
      milestones = [], task_dependencies = [], reverse_dependencies = []\<rparr>"

text \<open>A queue in which the task of the unknown agent comes before \<open>A\<close> and \<open>B\<close>.\<close>

definition mixed_state :: orchestrator where
  "mixed_state =
     \<lparr>agents = [''dev''], tasks = [(''G'', task_G), (''A'', task_A), (''B'', task_B)],
      completed_tasks = [], milestones = [], task_dependencies = [],
      reverse_dependencies = []\<rparr>"

text \<open>
  One simulated completion, of the task \<open>t1\<close> of the agent \<open>dev\<close>, as
  \<^verbatim>\<open>_simulate_execution\<close> records it; and the throughput table after
  \<^verbatim>\<open>_estimate_task_duration\<close> has looked the agent up.
\<close>

definition simulated_times :: "(string \<times> completion_window) list" where
  "simulated_times = [(''t1'', \<lparr>cw_start = 0, cw_end = 5, cw_duration = 5\<rparr>)]"

definition dev_table :: "(string \<times> agent_throughput) list" where
  "dev_table = [(''dev'', default_throughput)]"

section \<open>Backoff delays\<close>

lemma float_limit_bounds: "2 ^ 1023 < float_limit" "float_limit \<le> 2 ^ 1024"
  by (simp_all add: float_limit_def)

lemma pow2_small:
  assumes "0 \<le> k" "k \<le> 1023"
  shows "pow2 rnd k = Inr (rnd (2 ^ nat k))"
proof -
  from assms have "nat k \<le> 1023" by simp
  then have "(2::int) ^ nat k \<le> 2 ^ 1023" by (intro power_increasing) simp_all
  with float_limit_bounds(1) have "(2::int) ^ nat k < float_limit" by linarith
  moreover have "\<bar>(2::int) ^ nat k\<bar> = 2 ^ nat k" by simp
  ultimately show ?thesis using assms(1) by (simp add: pow2_def int_to_float_def)
qed

lemma pow2_large:
  assumes "1024 \<le> k"
  shows "pow2 rnd k = Inl (Exc OverflowError ''int too large to convert to float'')"
proof -
  from assms have "1024 \<le> nat k" by simp
  then have "(2::int) ^ 1024 \<le> 2 ^ nat k" by (intro power_increasing) simp_all
  with float_limit_bounds(2) have "float_limit \<le> (2::int) ^ nat k" by linarith
  moreover have "\<bar>(2::int) ^ nat k\<bar> = 2 ^ nat k" by simp
  ultimately show ?thesis using assms by (simp add: pow2_def int_to_float_def)
qed

lemma pow2_step:
  fixes rnd :: "rat \<Rightarrow> rat"
  assumes "mono rnd" "0 \<le> b"
  shows "rnd (b * rnd (2 ^ nat (n - 1))) \<le> rnd (b * rnd (2 ^ nat n))"
proof -
  have "nat (n - 1) \<le> nat n" by simp
  then have "(2::rat) ^ nat (n - 1) \<le> 2 ^ nat n" by (intro power_increasing) simp_all
  with assms(1) have "rnd (2 ^ nat (n - 1)) \<le> rnd (2 ^ nat n)" by (rule monoD)
  then have "b * rnd (2 ^ nat (n - 1)) \<le> b * rnd (2 ^ nat n)"
    using assms(2) by (rule mult_left_mono)
  with assms(1) show ?thesis by (rule monoD)
qed

lemma linear_step:
  fixes rnd :: "rat \<Rightarrow> rat"
  assumes "mono rnd" "0 \<le> b"
  shows "rnd (b * rnd (of_int n)) \<le> rnd (b * rnd (of_int (n + 1)))"
proof -
  have "(of_int n :: rat) \<le> of_int (n + 1)" by simp
  with assms(1) have "rnd (of_int n) \<le> rnd (of_int (n + 1))" by (rule monoD)
  then have "b * rnd (of_int n) \<le> b * rnd (of_int (n + 1))"
    using assms(2) by (rule mult_left_mono)
  with assms(1) show ?thesis by (rule monoD)
qed

text \<open>
  C9 (as stated in the specification): for every strategy object with backoff
  \<open>exponential\<close> or \<open>linear\<close> and every attempt \<open>n \<ge> 1\<close> the delay does not decrease
  from \<open>n\<close> to \<open>n + 1\<close>. The constructor accepts any \<^verbatim>\<open>base_delay\<close>; with a negative
  one the exponential delays fall: attempt 1 waits \<open>-1\<close>, attempt 2 waits \<open>-2\<close>. And
  not every attempt has a delay: with the default strategy, attempt 1024 waits 32 and
  attempt 1025 raises \<^verbatim>\<open>OverflowError\<close>, for \<^verbatim>\<open>2 ** 1024\<close> has no float; with linear
  backoff the same happens at the attempt \<^verbatim>\<open>2**1024 - 2**970\<close>.
\<close>

theorem calculate_delay_counterexample:
  "calculate_delay exact
      \<lparr>max_retries = 3, base_delay = - 1, max_delay = 32, strategy = ''exponential''\<rparr> 1
     = Inr (- 1)
   \<and> calculate_delay exact
      \<lparr>max_retries = 3, base_delay = - 1, max_delay = 32, strategy = ''exponential''\<rparr> (1 + 1)
     = Inr (- 2)
   \<and> calculate_delay exact default_retry_strategy 1024 = Inr 32
   \<and> calculate_delay exact default_retry_strategy (1024 + 1)
     = Inl (Exc OverflowError ''int too large to convert to float'')
   \<and> calculate_delay exact (default_retry_strategy\<lparr>strategy := ''linear''\<rparr>) (float_limit - 1)
     = Inr 32
   \<and> calculate_delay exact (default_retry_strategy\<lparr>strategy := ''linear''\<rparr>)
        (float_limit - 1 + 1)
     = Inl (Exc OverflowError ''int too large to convert to float'')"
  by (simp add: calculate_delay_def pow2_def int_to_float_def float_limit_def exact_def
      default_retry_strategy_def)

text \<open>
  C9 (amended): let \<^verbatim>\<open>base_delay\<close> be non-negative and let float rounding be monotone.
  With backoff \<open>exponential\<close>, for every attempt \<open>n\<close> from 1 to 1023, and with backoff
  \<open>linear\<close>, for every attempt \<open>n \<ge> 1\<close> with \<open>n + 1\<close> below \<^verbatim>\<open>2**1024 - 2**970\<close>, both
  \<^verbatim>\<open>calculate_delay(n)\<close> and \<^verbatim>\<open>calculate_delay(n + 1)\<close> return,
  \<^verbatim>\<open>calculate_delay(n + 1) >= calculate_delay(n)\<close>, no delay exceeds \<^verbatim>\<open>max_delay\<close>, and
  once the cap is reached the delay stays at the cap. Beyond these bounds the call
  raises \<^verbatim>\<open>OverflowError\<close>: with backoff \<open>exponential\<close> from attempt 1025 on, with
  backoff \<open>linear\<close> from attempt \<^verbatim>\<open>2**1024 - 2**970\<close> on. With backoff \<open>fixed\<close> the delay is
  \<^verbatim>\<open>base_delay\<close> for all attempts, whatever the base.
\<close>

theorem calculate_delay_monotone:
  "(mono rnd \<and> 0 \<le> base_delay s \<and> strategy s = ''exponential'' \<and> 1 \<le> n \<and> n \<le> 1023
      \<longrightarrow> (\<exists>d d'. calculate_delay rnd s n = Inr d \<and> calculate_delay rnd s (n + 1) = Inr d'
             \<and> d \<le> d' \<and> d' \<le> max_delay s \<and> (d = max_delay s \<longrightarrow> d' = max_delay s)))
   \<and> (mono rnd \<and> 0 \<le> base_delay s \<and> strategy s = ''linear'' \<and> 1 \<le> n \<and> n + 1 < float_limit
      \<longrightarrow> (\<exists>d d'. calculate_delay rnd s n = Inr d \<and> calculate_delay rnd s (n + 1) = Inr d'
             \<and> d \<le> d' \<and> d' \<le> max_delay s \<and> (d = max_delay s \<longrightarrow> d' = max_delay s)))
   \<and> (strategy s = ''exponential'' \<and> 1025 \<le> n
      \<longrightarrow> calculate_delay rnd s n = Inl (Exc OverflowError ''int too large to convert to float''))
   \<and> (strategy s = ''linear'' \<and> float_limit \<le> n
      \<longrightarrow> calculate_delay rnd s n = Inl (Exc OverflowError ''int too large to convert to float''))
   \<and> (strategy s = ''fixed'' \<longrightarrow> calculate_delay rnd s n = Inr (base_delay s))"
proof (intro conjI impI)
  assume h: "mono rnd \<and> 0 \<le> base_delay s \<and> strategy s = ''exponential'' \<and> 1 \<le> n \<and> n \<le> 1023"
  then have m: "mono rnd" and b: "0 \<le> base_delay s" and e: "strategy s = ''exponential''"
    and n: "1 \<le> n" "n \<le> 1023" by simp_all
  from n have p1: "pow2 rnd (n - 1) = Inr (rnd (2 ^ nat (n - 1)))" by (intro pow2_small) simp_all
  from n have p2: "pow2 rnd n = Inr (rnd (2 ^ nat n))" by (intro pow2_small) simp_all
  let ?d = "min (rnd (base_delay s * rnd (2 ^ nat (n - 1)))) (max_delay s)"
  let ?d' = "min (rnd (base_delay s * rnd (2 ^ nat n))) (max_delay s)"
  have c1: "calculate_delay rnd s n = Inr ?d" using e p1 by (simp add: calculate_delay_def)
  have c2: "calculate_delay rnd s (n + 1) = Inr ?d'" using e p2 by (simp add: calculate_delay_def)
  have le: "?d \<le> ?d'" using pow2_step [OF m b, of n] by (simp add: min_def)
  have cap: "?d' \<le> max_delay s" by simp
  from le cap have stay: "?d = max_delay s \<longrightarrow> ?d' = max_delay s" by linarith
  from c1 c2 le cap stay
  show "\<exists>d d'. calculate_delay rnd s n = Inr d \<and> calculate_delay rnd s (n + 1) = Inr d'
          \<and> d \<le> d' \<and> d' \<le> max_delay s \<and> (d = max_delay s \<longrightarrow> d' = max_delay s)"
    by blast
next
  assume h: "mono rnd \<and> 0 \<le> base_delay s \<and> strategy s = ''linear'' \<and> 1 \<le> n \<and> n + 1 < float_limit"
  then have m: "mono rnd" and b: "0 \<le> base_delay s" and l: "strategy s = ''linear''"
    and n: "1 \<le> n" "n + 1 < float_limit" by simp_all
  from n have i1: "int_to_float rnd n = Inr (rnd (of_int n))" by (simp add: int_to_float_def)
  from n have i2: "int_to_float rnd (n + 1) = Inr (rnd (of_int (n + 1)))"
    by (simp add: int_to_float_def)
  let ?d = "min (rnd (base_delay s * rnd (of_int n))) (max_delay s)"
  let ?d' = "min (rnd (base_delay s * rnd (of_int (n + 1)))) (max_delay s)"
  have c1: "calculate_delay rnd s n = Inr ?d" using l i1 by (simp add: calculate_delay_def)
  have c2: "calculate_delay rnd s (n + 1) = Inr ?d'" using l i2 by (simp add: calculate_delay_def)
  have le: "?d \<le> ?d'" using linear_step [OF m b, of n] by (simp add: min_def)
  have cap: "?d' \<le> max_delay s" by simp
  from le cap have stay: "?d = max_delay s \<longrightarrow> ?d' = max_delay s" by linarith
  from c1 c2 le cap stay
  show "\<exists>d d'. calculate_delay rnd s n = Inr d \<and> calculate_delay rnd s (n + 1) = Inr d'
          \<and> d \<le> d' \<and> d' \<le> max_delay s \<and> (d = max_delay s \<longrightarrow> d' = max_delay s)"
    by blast
next
  assume "strategy s = ''exponential'' \<and> 1025 \<le> n"
  then have e: "strategy s = ''exponential''" and "1024 \<le> n - 1" by simp_all
  from pow2_large [OF this(2), of rnd] e
  show "calculate_delay rnd s n = Inl (Exc OverflowError ''int too large to convert to float'')"
    by (simp add: calculate_delay_def)
next
  assume h: "strategy s = ''linear'' \<and> float_limit \<le> n"
  then have "float_limit \<le> \<bar>n\<bar>" by linarith
  with h show "calculate_delay rnd s n = Inl (Exc OverflowError ''int too large to convert to float'')"
    by (simp add: calculate_delay_def int_to_float_def)
next
  assume "strategy s = ''fixed''"
  then show "calculate_delay rnd s n = Inr (base_delay s)"
    by (simp add: calculate_delay_def)
qed

theorem calculate_delay_monotone_witness:
  "(\<exists>d d'. calculate_delay exact default_retry_strategy 3 = Inr d
          \<and> calculate_delay exact default_retry_strategy (3 + 1) = Inr d'
          \<and> d \<le> d' \<and> d' \<le> max_delay default_retry_strategy)
   \<and> (\<exists>d d'. calculate_delay exact (default_retry_strategy\<lparr>strategy := ''linear''\<rparr>) 3 = Inr d
          \<and> calculate_delay exact (default_retry_strategy\<lparr>strategy := ''linear''\<rparr>) (3 + 1) = Inr d'
          \<and> d \<le> d' \<and> d' \<le> max_delay (default_retry_strategy\<lparr>strategy := ''linear''\<rparr>))
   \<and> calculate_delay exact default_retry_strategy 1025
       = Inl (Exc OverflowError ''int too large to convert to float'')
   \<and> calculate_delay exact (default_retry_strategy\<lparr>strategy := ''linear''\<rparr>) float_limit
       = Inl (Exc OverflowError ''int too large to convert to float'')
   \<and> calculate_delay exact (default_retry_strategy\<lparr>strategy := ''fixed''\<rparr>) 9 = Inr 1"
proof -
  have m: "mono exact" by (simp add: mono_def exact_def)
  have h1: "mono exact \<and> 0 \<le> base_delay default_retry_strategy
            \<and> strategy default_retry_strategy = ''exponential'' \<and> (1::int) \<le> 3 \<and> (3::int) \<le> 1023"
    using m by (simp add: default_retry_strategy_def)
  have h2: "mono exact \<and> 0 \<le> base_delay (default_retry_strategy\<lparr>strategy := ''linear''\<rparr>)
            \<and> strategy (default_retry_strategy\<lparr>strategy := ''linear''\<rparr>) = ''linear''
            \<and> (1::int) \<le> 3 \<and> 3 + 1 < float_limit"
    using m by (simp add: default_retry_strategy_def float_limit_def)
  have h3: "strategy default_retry_strategy = ''exponential'' \<and> (1025::int) \<le> 1025"
    by (simp add: default_retry_strategy_def)
  have h4: "strategy (default_retry_strategy\<lparr>strategy := ''linear''\<rparr>) = ''linear''
            \<and> float_limit \<le> float_limit"
    by simp
  have h5: "strategy (default_retry_strategy\<lparr>strategy := ''fixed''\<rparr>) = ''fixed''" by simp
  have b: "base_delay (default_retry_strategy\<lparr>strategy := ''fixed''\<rparr>) = 1"
    by (simp add: default_retry_strategy_def)
  from h1 h3 calculate_delay_monotone [where rnd = exact and s = default_retry_strategy and n = 3]
    calculate_delay_monotone [where rnd = exact and s = default_retry_strategy and n = 1025]
  have a: "(\<exists>d d'. calculate_delay exact default_retry_strategy 3 = Inr d
          \<and> calculate_delay exact default_retry_strategy (3 + 1) = Inr d'
          \<and> d \<le> d' \<and> d' \<le> max_delay default_retry_strategy)
     \<and> calculate_delay exact default_retry_strategy 1025
       = Inl (Exc OverflowError ''int too large to convert to float'')"
    by blast
  from h2 h4
    calculate_delay_monotone [where rnd = exact
      and s = "default_retry_strategy\<lparr>strategy := ''linear''\<rparr>" and n = 3]
    calculate_delay_monotone [where rnd = exact
      and s = "default_retry_strategy\<lparr>strategy := ''linear''\<rparr>" and n = float_limit]
  have c: "(\<exists>d d'. calculate_delay exact (default_retry_strategy\<lparr>strategy := ''linear''\<rparr>) 3 = Inr d
          \<and> calculate_delay exact (default_retry_strategy\<lparr>strategy := ''linear''\<rparr>) (3 + 1) = Inr d'
          \<and> d \<le> d' \<and> d' \<le> max_delay (default_retry_strategy\<lparr>strategy := ''linear''\<rparr>))
     \<and> calculate_delay exact (default_retry_strategy\<lparr>strategy := ''linear''\<rparr>) float_limit
       = Inl (Exc OverflowError ''int too large to convert to float'')"
    by blast
  from h5 b
    calculate_delay_monotone [where rnd = exact
      and s = "default_retry_strategy\<lparr>strategy := ''fixed''\<rparr>" and n = 9]
  have d: "calculate_delay exact (default_retry_strategy\<lparr>strategy := ''fixed''\<rparr>) 9 = Inr 1"
    by simp
  from a c d show ?thesis by blast
qed

section \<open>Dictionary facts\<close>


lemma dict_get_set_same: "dict_get (dict_set d k v) k = Some v"
  by (induction d) auto

lemma dict_get_set_other: "k' \<noteq> k \<Longrightarrow> dict_get (dict_set d k v) k' = dict_get d k'"
  by (induction d) auto

lemma dict_get_del_same: "dict_get (dict_del d k) k = None"
  by (induction d) auto

lemma dict_get_del_other: "k' \<noteq> k \<Longrightarrow> dict_get (dict_del d k) k' = dict_get d k'"
  by (induction d) auto

lemma set_dict_set: "set (dict_set d k v) \<subseteq> insert (k, v) (set d)"
  by (induction d) (auto split: if_splits)

lemma set_dict_del: "set (dict_del d k) \<subseteq> set d"
  by (induction d) (auto split: if_splits)

lemma dict_mem_set: "dict_mem (dict_set d k' v) k \<longleftrightarrow> k = k' \<or> dict_mem d k"
  by (cases "k = k'") (simp_all add: dict_mem_def dict_get_set_same dict_get_set_other)

lemmas concrete_defs =
  sample_env_def sample_feedback_def default_retry_strategy_def
  task_A_def task_B_def task_C_def task_D_def task_G_def queue_state_def priority_state_def
  ghost_state_def mixed_state_def TaskDependency_def empty_metadata_def

lemmas dispatch_defs =
  dispatch_def Task_def Task_rejected_def key_error_def dict_mem_def get_ready_tasks_def

section \<open>Ready tasks\<close>

lemma ready_loop_filter:
  "ready_loop xs completed acc =
     acc @ filter (\<lambda>t. td_status t = ''pending''
                     \<and> list_all (\<lambda>dep. dict_mem completed dep) (td_depends_on t)) (map snd xs)"
  by (induction xs completed acc rule: ready_loop.induct) auto




section \<open>The critical path\<close>

text \<open>
  C4: for the queue \<open>A\<close> (duration 2), \<open>B\<close> (duration 3, after \<open>A\<close>), \<open>C\<close> (duration 1,
  after \<open>A\<close>) the specification wants the chain \<open>[A, B]\<close>. The function computes the
  earliest completions 2, 5 and 3 and returns the tasks whose value equals the maximum:
  \<open>[B]\<close> alone. It does not walk back along the dependencies.
\<close>

theorem find_critical_path_returns_last_task_only:
  "map (\<lambda>t. fst (estimate_task_duration [] t)) [task_A, task_B, task_C] = [2, 3, 1]
   \<and> fst (earliest_loop [task_A, task_B, task_C] [] []) = [(''A'', 2), (''B'', 5), (''C'', 3)]
   \<and> fst (find_critical_path [] [task_A, task_B, task_C]) = Inr [''B'']"
  by (simp add: find_critical_path_def task_A_def task_B_def task_C_def TaskDependency_def
      empty_metadata_def estimate_task_duration_def throughput_item_def default_throughput_def)

section \<open>A task for an agent that is not registered\<close>

lemma process_ready_skip:
  "\<forall>t \<in> set ts. td_agent_id t \<notin> set (agents st) \<Longrightarrow>
     \<exists>tr. process_ready fuel env ts st = Some (st, tr, None)"
  by (induction ts) (auto simp: dispatch_def)

lemma process_tasks_spins:
  assumes "tasks st \<noteq> []" "\<forall>(k, t) \<in> set (tasks st). td_agent_id t \<notin> set (agents st)"
  shows "process_tasks fuel env st = None"
proof (induction fuel)
  case 0
  show ?case by simp
next
  case (Suc fuel)
  have "\<forall>t \<in> set (get_ready_tasks st). td_agent_id t \<notin> set (agents st)"
    using assms(2) by (auto simp: get_ready_tasks_def ready_loop_filter)
  from process_ready_skip [OF this, of "Suc fuel" env]
  obtain tr where "process_ready (Suc fuel) env (get_ready_tasks st) st = Some (st, tr, None)" ..
  with Suc assms(1) show ?case by simp
qed

text \<open>
  C5 (as stated in the specification): a ready task whose agent is unknown fails at
  once. In the state below the only task names the agent \<open>ghost\<close>: the dispatch logs an
  error and changes nothing, the task is still \<open>pending\<close> and still ready, and the loop
  of \<^verbatim>\<open>process_tasks\<close> is still running when the fuel is spent.
\<close>

theorem unknown_agent_counterexample:
  "dispatch 4 sample_env task_G ghost_state
     = Some (ghost_state, [LogError ''Unknown agent: ghost''], None)
   \<and> get_ready_tasks ghost_state = [task_G] \<and> td_status task_G = ''pending''
   \<and> completed_tasks ghost_state = []
   \<and> process_tasks 3 sample_env ghost_state = None"
  by (simp add: concrete_defs dispatch_defs eval_nat_numeral)

text \<open>
  C5 (amended): for every ready task whose \<^verbatim>\<open>agent_id\<close> is not in the registry, the
  dispatch logs an error and skips the task: no attempt and no retry is made and the state
  is unchanged, so the task stays pending in the queue and is not marked failed; a
  non-empty queue that holds only such tasks keeps \<^verbatim>\<open>process_tasks\<close> looping for ever.
\<close>

theorem unknown_agent_skipped:
  "(td_agent_id t \<notin> set (agents st)
      \<longrightarrow> dispatch fuel env t st
           = Some (st, [LogError (''Unknown agent: '' @ td_agent_id t)], None))
   \<and> (tasks st \<noteq> [] \<and> (\<forall>(k, t) \<in> set (tasks st). td_agent_id t \<notin> set (agents st))
      \<longrightarrow> process_tasks fuel env st = None)"
  using process_tasks_spins [of st fuel env] by (simp add: dispatch_def)

theorem unknown_agent_skipped_witness:
  "dispatch 2 sample_env task_G ghost_state
     = Some (ghost_state, [LogError ''Unknown agent: ghost''], None)
   \<and> process_tasks 7 sample_env ghost_state = None"
  using unknown_agent_skipped [of task_G ghost_state 2 sample_env]
    unknown_agent_skipped [of task_G ghost_state 7 sample_env]
  by (simp add: concrete_defs)

end
